theory Spec2Isabelle
  imports Complex_Main "HOL-Library.Sublist"
begin

section \<open>Numbers\<close>

text \<open>
  A value of the language's number type is a finite number, one of the two infinities, or
  NaN. Finite values are exact reals here: the rounding of every operation to binary64,
  and with it overflow and underflow, is outside this model. The two zeros are one value,
  \<open>Fin 0\<close>: with the inputs the calculation accepts, a negative zero can only appear as
  its final result, and it is displayed like the positive one.
\<close>

datatype number = Fin real | PosInf | NegInf | NaN

fun isNaN :: "number \<Rightarrow> bool" where
  "isNaN NaN = True"
| "isNaN _ = False"

fun js_neg :: "number \<Rightarrow> number" where
  "js_neg (Fin x) = Fin (- x)"
| "js_neg PosInf = NegInf"
| "js_neg NegInf = PosInf"
| "js_neg NaN = NaN"

text \<open>The sign of a number that is not NaN: \<open>-1\<close>, \<open>0\<close> or \<open>1\<close>.\<close>

fun sign_of :: "number \<Rightarrow> int" where
  "sign_of (Fin x) = (if x < 0 then - 1 else if x = 0 then 0 else 1)"
| "sign_of PosInf = 1"
| "sign_of NegInf = - 1"
| "sign_of NaN = 0"

fun js_add :: "number \<Rightarrow> number \<Rightarrow> number" where
  "js_add NaN _ = NaN"
| "js_add _ NaN = NaN"
| "js_add (Fin x) (Fin y) = Fin (x + y)"
| "js_add PosInf NegInf = NaN"
| "js_add NegInf PosInf = NaN"
| "js_add PosInf _ = PosInf"
| "js_add NegInf _ = NegInf"
| "js_add _ PosInf = PosInf"
| "js_add _ NegInf = NegInf"

definition js_sub :: "number \<Rightarrow> number \<Rightarrow> number" where
  "js_sub a b = js_add a (js_neg b)"

fun js_mul :: "number \<Rightarrow> number \<Rightarrow> number" where
  "js_mul NaN _ = NaN"
| "js_mul _ NaN = NaN"
| "js_mul (Fin x) (Fin y) = Fin (x * y)"
| "js_mul a b =
     (if sign_of a * sign_of b = 0 then NaN
      else if sign_of a * sign_of b < 0 then NegInf else PosInf)"

text \<open>
  Division: a finite non-zero number over zero is an infinity with the sign of the
  numerator (the zero being the positive one), zero over zero and an infinity over an
  infinity are NaN, and a finite number over an infinity is zero.
\<close>

fun js_div :: "number \<Rightarrow> number \<Rightarrow> number" where
  "js_div NaN _ = NaN"
| "js_div _ NaN = NaN"
| "js_div (Fin x) (Fin y) =
     (if y \<noteq> 0 then Fin (x / y)
      else if x = 0 then NaN else if x < 0 then NegInf else PosInf)"
| "js_div (Fin x) _ = Fin 0"
| "js_div a (Fin y) =
     (if sign_of a * (if y < 0 then - 1 else 1) < 0 then NegInf else PosInf)"
| "js_div _ _ = NaN"

text \<open>The comparisons \<open><\<close>, \<open><=\<close> and \<open>===\<close>: each is false when an operand is NaN.\<close>

fun js_lt :: "number \<Rightarrow> number \<Rightarrow> bool" where
  "js_lt NaN _ = False"
| "js_lt _ NaN = False"
| "js_lt (Fin x) (Fin y) = (x < y)"
| "js_lt (Fin x) PosInf = True"
| "js_lt (Fin x) NegInf = False"
| "js_lt PosInf _ = False"
| "js_lt NegInf NegInf = False"
| "js_lt NegInf _ = True"

fun js_strict_eq :: "number \<Rightarrow> number \<Rightarrow> bool" where
  "js_strict_eq NaN _ = False"
| "js_strict_eq _ NaN = False"
| "js_strict_eq a b = (a = b)"

definition js_le :: "number \<Rightarrow> number \<Rightarrow> bool" where
  "js_le a b = (js_lt a b \<or> js_strict_eq a b)"

text \<open>
  \<open>a || b\<close> is \<open>a\<close> when \<open>a\<close> is truthy and \<open>b\<close> otherwise; the falsy numbers are zero
  and NaN.
\<close>

fun truthy :: "number \<Rightarrow> bool" where
  "truthy (Fin x) = (x \<noteq> 0)"
| "truthy NaN = False"
| "truthy _ = True"

definition js_or :: "number \<Rightarrow> number \<Rightarrow> number" where
  "js_or a b = (if truthy a then a else b)"

section \<open>Strings and numeric literals\<close>

text \<open>
  A string is the sequence of the bytes of its UTF-8 encoding, the encoding of the exported
  document. \<open>scale10 x k\<close> is \<open>x\<close> times ten to the power \<open>k\<close>.
\<close>

definition scale10 :: "real \<Rightarrow> int \<Rightarrow> real" where
  "scale10 x k = (if 0 \<le> k then x * 10 ^ nat k else x / 10 ^ nat (- k))"

definition isDigit :: "char \<Rightarrow> bool" where
  "isDigit c = (c \<in> set ''0123456789'')"

definition digitValue :: "char \<Rightarrow> nat" where
  "digitValue c = of_char c - 48"

definition digitsValue :: "string \<Rightarrow> nat" where
  "digitsValue ds = foldl (\<lambda>a c. 10 * a + digitValue c) 0 ds"

text \<open>
  The white space and line terminator code points that the trimming operations remove:
  TAB, LF, VT, FF, CR, SP, and in UTF-8 U+00A0, U+1680, U+2000 to U+200A, U+2028, U+2029,
  U+202F, U+205F, U+3000 and U+FEFF.
\<close>

definition whiteSpace :: "string list" where
  "whiteSpace =
     map (\<lambda>c. [c]) [CHR 0x09, CHR 0x0A, CHR 0x0B, CHR 0x0C, CHR 0x0D, CHR 0x20]
     @ [[CHR 0xC2, CHR 0xA0], [CHR 0xE1, CHR 0x9A, CHR 0x80]]
     @ map (\<lambda>c. [CHR 0xE2, CHR 0x80, c])
         [CHR 0x80, CHR 0x81, CHR 0x82, CHR 0x83, CHR 0x84, CHR 0x85, CHR 0x86, CHR 0x87,
          CHR 0x88, CHR 0x89, CHR 0x8A, CHR 0xA8, CHR 0xA9, CHR 0xAF]
     @ [[CHR 0xE2, CHR 0x81, CHR 0x9F], [CHR 0xE3, CHR 0x80, CHR 0x80],
        [CHR 0xEF, CHR 0xBB, CHR 0xBF]]"

function trimStart :: "string \<Rightarrow> string" where
  "trimStart s =
     (case find (\<lambda>w. prefix w s) whiteSpace of
        None \<Rightarrow> s
      | Some w \<Rightarrow> trimStart (drop (length w) s))"
  by pat_completeness auto
termination
proof (relation "measure length")
  show "wf (measure length)" by simp
next
  fix s w
  assume "find (\<lambda>w. prefix w s) whiteSpace = Some w"
  then have "w \<in> set whiteSpace" and "prefix w s"
    by (auto simp: find_Some_iff)
  then have "w \<noteq> []" and "length w \<le> length s"
    by (auto simp: whiteSpace_def prefix_length_le)
  then show "(drop (length w) s, s) \<in> measure length"
    by (cases w) auto
qed

declare trimStart.simps [simp del]

text \<open>
  A decimal literal read exactly: sign, coefficient and decimal exponent, its value being
  the coefficient times ten to the exponent; or a signed \<open>Infinity\<close>; or no literal.
\<close>

datatype literal = Lit bool nat int | LitInfinity bool | NoLiteral

text \<open>
  The exponent part at the head of a string, with what follows it: \<open>e\<close> or \<open>E\<close>, an
  optional sign and at least one digit. Where there is none, the literal ends before it.
\<close>

definition scanExponent :: "string \<Rightarrow> int \<times> string" where
  "scanExponent s =
     (case s of
        [] \<Rightarrow> (0, s)
      | c # t \<Rightarrow>
          if c = CHR ''e'' \<or> c = CHR ''E'' then
            (let neg = (t \<noteq> [] \<and> hd t = CHR ''-'');
                 u = (if t \<noteq> [] \<and> (hd t = CHR ''+'' \<or> hd t = CHR ''-'') then tl t else t);
                 ds = takeWhile isDigit u
             in if ds = [] then (0, s)
                else ((if neg then - int (digitsValue ds) else int (digitsValue ds)),
                      dropWhile isDigit u))
          else (0, s))"

text \<open>
  The longest prefix of a string that is an unsigned decimal literal
  (\<open>Infinity\<close>, \<open>digits\<close>, \<open>digits.\<close>, \<open>digits.digits\<close> or \<open>.digits\<close>, the last four with an
  optional exponent part), with the rest of the string.
\<close>

definition scanUnsigned :: "bool \<Rightarrow> string \<Rightarrow> literal \<times> string" where
  "scanUnsigned neg s =
     (if prefix ''Infinity'' s then (LitInfinity neg, drop 8 s)
      else
        let ip = takeWhile isDigit s;
            r1 = dropWhile isDigit s;
            dot = (r1 \<noteq> [] \<and> hd r1 = CHR ''.'');
            fp = (if dot then takeWhile isDigit (tl r1) else []);
            r2 = (if dot then dropWhile isDigit (tl r1) else r1)
        in if ip = [] \<and> fp = [] then (NoLiteral, s)
           else (let (ex, r3) = scanExponent r2
                 in (Lit neg (digitsValue (ip @ fp)) (ex - int (length fp)), r3)))"

definition scanDecimal :: "string \<Rightarrow> literal \<times> string" where
  "scanDecimal s =
     (case s of
        [] \<Rightarrow> (NoLiteral, s)
      | c # t \<Rightarrow>
          if c = CHR ''+'' then scanUnsigned False t
          else if c = CHR ''-'' then scanUnsigned True t
          else scanUnsigned False s)"

text \<open>The number a literal denotes; no literal denotes NaN.\<close>

fun literalValue :: "literal \<Rightarrow> number" where
  "literalValue (Lit neg c ex) =
     Fin (if neg then - scale10 (real c) ex else scale10 (real c) ex)"
| "literalValue (LitInfinity neg) = (if neg then NegInf else PosInf)"
| "literalValue NoLiteral = NaN"

text \<open>
  \<open>parseFloat\<close>: leading white space is skipped, the longest prefix that is a decimal
  literal is read, and whatever follows it is ignored.
\<close>

definition parseFloat :: "string \<Rightarrow> number" where
  "parseFloat s = literalValue (fst (scanDecimal (trimStart s)))"

section \<open>Formatting numbers\<close>

text \<open>
  The decimal exponent of a positive number \<open>a\<close>: the \<open>k\<close> with
  \<open>10 ^ k \<le> a < 10 ^ (k + 1)\<close>, found by dividing or multiplying by ten.
\<close>

function tensAbove :: "real \<Rightarrow> nat" where
  "tensAbove x = (if 10 \<le> x then Suc (tensAbove (x / 10)) else 0)"
  by pat_completeness auto
termination
  by (relation "measure (\<lambda>x. nat \<lfloor>x\<rfloor>)") (auto, linarith)

function tensBelow :: "real \<Rightarrow> nat" where
  "tensBelow x = (if 0 < x \<and> x < 1 then Suc (tensBelow (x * 10)) else 0)"
  by pat_completeness auto
termination
proof (relation "measure (\<lambda>x. nat (\<lceil>1 / x\<rceil>))")
  show "wf (measure (\<lambda>x::real. nat (\<lceil>1 / x\<rceil>)))" by simp
next
  fix x :: real
  assume "0 < x \<and> x < 1"
  then have x: "0 < x" "x < 1" by auto
  then have big: "1 < 1 / x" by simp
  have "1 / (x * 10) + 1 \<le> 1 / x \<or> 1 / x < 10 / 9"
    using x by (simp add: field_simps) linarith
  then have "\<lceil>1 / (x * 10)\<rceil> < \<lceil>1 / x\<rceil>"
  proof
    assume "1 / (x * 10) + 1 \<le> 1 / x"
    then show ?thesis by linarith
  next
    assume small: "1 / x < 10 / 9"
    then have "1 / (x * 10) \<le> 1" using x by (simp add: field_simps)
    then have "\<lceil>1 / (x * 10)\<rceil> \<le> 1" by (simp add: ceiling_le_one)
    moreover have "2 \<le> \<lceil>1 / x\<rceil>" using big by linarith
    ultimately show ?thesis by linarith
  qed
  moreover have "0 < \<lceil>1 / x\<rceil>" using big by linarith
  ultimately show "(x * 10, x) \<in> measure (\<lambda>x. nat (\<lceil>1 / x\<rceil>))"
    by simp
qed

declare tensAbove.simps [simp del] tensBelow.simps [simp del]

definition decimalExponent :: "real \<Rightarrow> int" where
  "decimalExponent a = (if 1 \<le> a then int (tensAbove a) else - int (tensBelow a))"

text \<open>The decimal digits of a natural number, without leading zeros.\<close>

definition digitChar :: "nat \<Rightarrow> char" where
  "digitChar k = ''0123456789'' ! k"

fun decimalDigits :: "nat \<Rightarrow> string" where
  "decimalDigits n =
     (if n < 10 then [digitChar n] else decimalDigits (n div 10) @ [digitChar (n mod 10)])"

declare decimalDigits.simps [simp del]

text \<open>
  \<open>toPrecision(3)\<close> of a positive number picks the three-digit \<open>n\<close> and the exponent \<open>ex\<close>
  for which \<open>n * 10 ^ (ex - 2)\<close> is nearest to it, the larger \<open>n\<close> at a tie.
\<close>

definition threeDigits :: "real \<Rightarrow> nat \<times> int" where
  "threeDigits a =
     (let e0 = decimalExponent a;
          n0 = nat \<lfloor>scale10 a (2 - e0) + 1 / 2\<rfloor>
      in if n0 = 1000 then (100, e0 + 1) else (n0, e0))"

definition toPrecision3 :: "number \<Rightarrow> string" where
  "toPrecision3 num =
     (case num of
        NaN \<Rightarrow> ''NaN''
      | PosInf \<Rightarrow> ''Infinity''
      | NegInf \<Rightarrow> ''-Infinity''
      | Fin x \<Rightarrow>
          let sgn = (if x < 0 then ''-'' else []);
              a = \<bar>x\<bar>;
              (m, ex) = (if a = 0 then (''000'', 0)
                         else (decimalDigits (fst (threeDigits a)), snd (threeDigits a)))
          in if ex < - 6 \<or> 3 \<le> ex then
               sgn @ take 1 m @ ''.'' @ drop 1 m @ ''e''
                 @ (if 0 < ex then ''+'' else ''-'') @ decimalDigits (nat \<bar>ex\<bar>)
             else if ex = 2 then sgn @ m
             else if 0 \<le> ex then sgn @ take (nat ex + 1) m @ ''.'' @ drop (nat ex + 1) m
             else sgn @ ''0.'' @ replicate (nat (- (ex + 1))) (CHR ''0'') @ m)"

text \<open>
  \<open>Number(str)\<close> reads a whole string, white space trimmed at both ends: the empty string
  is zero, a decimal literal or a \<open>0x\<close>, \<open>0o\<close> or \<open>0b\<close> integer is its value, anything else
  is NaN. The value is kept as the literal that was read, which is exact.
\<close>

function trimEnd :: "string \<Rightarrow> string" where
  "trimEnd s =
     (case find (\<lambda>w. suffix w s) whiteSpace of
        None \<Rightarrow> s
      | Some w \<Rightarrow> trimEnd (take (length s - length w) s))"
  by pat_completeness auto
termination
proof (relation "measure length")
  show "wf (measure length)" by simp
next
  fix s w
  assume "find (\<lambda>w. suffix w s) whiteSpace = Some w"
  then have "w \<in> set whiteSpace" and "suffix w s"
    by (auto simp: find_Some_iff)
  then have "w \<noteq> []" and "length w \<le> length s"
    by (auto simp: whiteSpace_def suffix_length_le)
  then show "(take (length s - length w) s, s) \<in> measure length"
    by (cases w) auto
qed

declare trimEnd.simps [simp del]

definition radixDigit :: "char \<Rightarrow> nat option" where
  "radixDigit c =
     (if isDigit c then Some (digitValue c)
      else if c \<in> set ''abcdef'' then Some (of_char c - 87)
      else if c \<in> set ''ABCDEF'' then Some (of_char c - 55)
      else None)"

definition scanNonDecimal :: "string \<Rightarrow> literal" where
  "scanNonDecimal s =
     (case s of
        z # r # ds \<Rightarrow>
          (let base = (if r \<in> set ''xX'' then 16 else if r \<in> set ''oO'' then 8
                       else if r \<in> set ''bB'' then 2 else (0::nat))
           in if z = CHR ''0'' \<and> ds \<noteq> [] \<and> base \<noteq> 0
                 \<and> list_all (\<lambda>c. case radixDigit c of None \<Rightarrow> False | Some v \<Rightarrow> v < base) ds
              then Lit False (foldl (\<lambda>a c. base * a + the (radixDigit c)) 0 ds) 0
              else NoLiteral)
      | _ \<Rightarrow> NoLiteral)"

definition Number :: "string \<Rightarrow> literal" where
  "Number str =
     (let t = trimEnd (trimStart str)
      in if t = [] then Lit False 0 0
         else (let (l, rest) = scanDecimal t
               in if l \<noteq> NoLiteral \<and> rest = [] then l else scanNonDecimal t))"

text \<open>
  \<open>toString()\<close> of the number a literal denotes prints its digits without trailing zeros:
  in positional notation when the position \<open>n\<close> of the decimal point is between \<open>-5\<close> and
  \<open>21\<close>, in exponent notation otherwise. (The shortest digits that read back as the same
  binary64 value are the literal's own when it has at most fifteen of them, and
  \<open>toPrecision3\<close> writes three.)
\<close>

function stripZeros :: "nat \<Rightarrow> int \<Rightarrow> nat \<times> int" where
  "stripZeros c ex =
     (if c \<noteq> 0 \<and> c mod 10 = 0 then stripZeros (c div 10) (ex + 1) else (c, ex))"
  by pat_completeness auto
termination
  by (relation "measure fst") auto

declare stripZeros.simps [simp del]

definition digitsToString :: "string \<Rightarrow> int \<Rightarrow> string" where
  "digitsToString ds n =
     (let k = int (length ds)
      in if - 6 < n \<and> n \<le> 21 then
           (if k \<le> n then ds @ replicate (nat (n - k)) (CHR ''0'')
            else if 0 < n then take (nat n) ds @ ''.'' @ drop (nat n) ds
            else ''0.'' @ replicate (nat (- n)) (CHR ''0'') @ ds)
         else
           (if k = 1 then ds else take 1 ds @ ''.'' @ drop 1 ds)
           @ ''e'' @ (if n - 1 < 0 then ''-'' else ''+'') @ decimalDigits (nat \<bar>n - 1\<bar>))"

definition toString :: "literal \<Rightarrow> string" where
  "toString l =
     (case l of
        NoLiteral \<Rightarrow> ''NaN''
      | LitInfinity neg \<Rightarrow> (if neg then ''-Infinity'' else ''Infinity'')
      | Lit neg c ex \<Rightarrow>
          if c = 0 then ''0''
          else (let (c', ex') = stripZeros c ex;
                    ds = decimalDigits c'
                in (if neg then ''-'' else []) @ digitsToString ds (ex' + int (length ds))))"

text \<open>\<open>formatNumber\<close>: \<open>Number(num.toPrecision(3)).toString()\<close>.\<close>

definition formatNumber :: "number \<Rightarrow> string" where
  "formatNumber num = toString (Number (toPrecision3 num))"

section \<open>The application state\<close>

text \<open>
  The component's state variables: the five input fields as the strings typed into them,
  the current result, the error message, the saved results and the case label. (The
  tooltip state does not take part in any computation.) A saved result holds the time it
  was saved, the five inputs as numbers, the pressure and the case label; its fields are
  written \<open>input_P\<close>, ..., \<open>result_qmax\<close>, \<open>result_case\<close> to keep them apart from the
  state's.
\<close>

record inputs =
  input_P :: number
  input_M :: number
  input_B :: number
  input_D :: number
  input_e :: number

record CalculationResult =
  timestamp :: string
  inputs :: inputs
  result_qmax :: number
  result_case :: string

record app =
  P :: string
  M :: string
  B :: string
  D :: string
  e :: string
  qmax :: "number option"
  error :: string
  savedResults :: "CalculationResult list"
  calculationCase :: string

text \<open>
  \<open>validateInputs\<close> walks the entries \<open>P, M, B, D, e\<close> in order and returns false at the
  first value that is the empty string, or whose \<open>parseFloat\<close> is NaN or \<open><= 0\<close>.
\<close>

fun validateEntries :: "(string \<times> string) list \<Rightarrow> bool" where
  "validateEntries [] = True"
| "validateEntries ((key, v) # rest) =
     (if v = [] then False
      else let num = parseFloat v
           in if isNaN num \<or> js_le num (Fin 0) then False
              else validateEntries rest)"

definition validateInputs :: "app \<Rightarrow> bool" where
  "validateInputs s =
     validateEntries [(''P'', P s), (''M'', M s), (''B'', B s), (''D'', D s), (''e'', e s)]"

text \<open>The critical eccentricity as \<open>calculateQmax\<close> derives it: \<open>(mVal / pVal) || (1/6) * dVal\<close>.\<close>

definition ek :: "number \<Rightarrow> number \<Rightarrow> number \<Rightarrow> number" where
  "ek mVal pVal dVal = js_or (js_div mVal pVal) (js_mul (js_div (Fin 1) (Fin 6)) dVal)"

definition validation_message :: string where
  "validation_message = ''Please enter valid positive numbers for all fields''"

definition calculateQmax :: "app \<Rightarrow> app" where
  "calculateQmax s =
     (if \<not> validateInputs s then s\<lparr>qmax := None, error := validation_message\<rparr>
      else
        let pVal = parseFloat (P s);
            mVal = parseFloat (M s);
            bVal = parseFloat (B s);
            dVal = parseFloat (D s);
            eVal = parseFloat (e s);
            ek = ek mVal pVal dVal;
            (result, caseType) =
              (if js_lt eVal ek then
                 (js_add (js_div pVal (js_mul bVal dVal))
                    (js_div (js_mul (Fin 6) mVal) (js_mul (js_mul bVal dVal) dVal)),
                  ''Case A: e < ek'')
               else if js_strict_eq eVal ek then
                 (js_add (js_div pVal (js_mul bVal dVal))
                    (js_div (js_mul (Fin 6) mVal) (js_mul (js_mul bVal dVal) dVal)),
                  ''Case B: e = ek'')
               else
                 (js_div pVal
                    (js_mul (js_mul (js_div (Fin 3) (Fin 2)) bVal)
                       (js_sub (js_div dVal (Fin 2)) eVal)),
                  ''Case C: e > ek''))
        in s\<lparr>qmax := Some result, calculationCase := caseType, error := []\<rparr>)"

text \<open>
  \<open>saveResult\<close> does nothing while there is no result; otherwise it appends a record of
  the current inputs and result. The time stamp is the clock's, taken as an argument.
\<close>

definition saveResult :: "string \<Rightarrow> app \<Rightarrow> app" where
  "saveResult now s =
     (case qmax s of
        None \<Rightarrow> s
      | Some q \<Rightarrow>
          s\<lparr>savedResults := savedResults s @
              [\<lparr>timestamp = now,
                inputs = \<lparr>input_P = parseFloat (P s), input_M = parseFloat (M s),
                          input_B = parseFloat (B s), input_D = parseFloat (D s),
                          input_e = parseFloat (e s)\<rparr>,
                result_qmax = q,
                result_case = calculationCase s\<rparr>]\<rparr>)"

text \<open>\<open>Array.prototype.join\<close> on strings.\<close>

fun join :: "string \<Rightarrow> string list \<Rightarrow> string" where
  "join sep [] = []"
| "join sep [x] = x"
| "join sep (x # y # ys) = x @ sep @ join sep (y # ys)"

text \<open>
  The header cells. The dot in the unit of \<open>M\<close> is U+22C5 (bytes E2 8B 85) and the
  superscript two in the unit of \<open>qmax\<close> is U+00B2 (bytes C2 B2).
\<close>

definition headers :: "string list" where
  "headers =
     [''Timestamp'', ''P (kN)'', ''M (kN'' @ [CHR 0xE2, CHR 0x8B, CHR 0x85] @ ''m)'',
      ''B (m)'', ''D (m)'', ''e (m)'', ''qmax (kN/m'' @ [CHR 0xC2, CHR 0xB2] @ '')'',
      ''Case'']"

definition csvRow :: "CalculationResult \<Rightarrow> string" where
  "csvRow r =
     join '',''
       [timestamp r,
        formatNumber (input_P (inputs r)),
        formatNumber (input_M (inputs r)),
        formatNumber (input_B (inputs r)),
        formatNumber (input_D (inputs r)),
        formatNumber (input_e (inputs r)),
        formatNumber (result_qmax r),
        result_case r]"

definition csvContent :: "CalculationResult list \<Rightarrow> string" where
  "csvContent rs = join [CHR 0x0A] (join '','' headers # map csvRow rs)"

text \<open>
  \<open>exportToCSV\<close> returns at once on an empty log; otherwise it offers the document for
  download: its content, the type of the blob and the file name of the link.
\<close>

record download =
  content :: string
  blob_type :: string
  file_name :: string

definition exportToCSV :: "app \<Rightarrow> download option" where
  "exportToCSV s =
     (if length (savedResults s) = 0 then None
      else Some \<lparr>content = csvContent (savedResults s),
                 blob_type = ''text/csv;charset=utf-8;'',
                 file_name = ''footing_pressure_results.csv''\<rparr>)"

text \<open>
  What the results section renders: the error text when there is one; otherwise, when there
  is a result, the case label, the formatted pressure and the save button, with the export
  button when the log is not empty; otherwise nothing.
\<close>

datatype results_view = ErrorText string | Results string string bool | Nothing

definition resultsSection :: "app \<Rightarrow> results_view" where
  "resultsSection s =
     (if error s \<noteq> [] then ErrorText (error s)
      else case qmax s of
             None \<Rightarrow> Nothing
           | Some q \<Rightarrow> Results (calculationCase s) (formatNumber q) (0 < length (savedResults s)))"

definition saveButtonShown :: "app \<Rightarrow> bool" where
  "saveButtonShown s = (case resultsSection s of Results _ _ _ \<Rightarrow> True | _ \<Rightarrow> False)"

definition exportButtonShown :: "app \<Rightarrow> bool" where
  "exportButtonShown s = (case resultsSection s of Results _ _ x \<Rightarrow> x | _ \<Rightarrow> False)"

text \<open>The state the component starts in.\<close>

definition initial :: app where
  "initial =
     \<lparr>P = ''3'', M = ''10'', B = ''1.2'', D = ''1.5'', e = ''0.1'', qmax = None, error = [],
      savedResults = [], calculationCase = []\<rparr>"

section \<open>Notions of the specification\<close>

text \<open>
  The lines of a document are its pieces between line feeds; the lines of an export are those
  of the document it offers, and none when it offers nothing.
\<close>

fun splitOn :: "char \<Rightarrow> string \<Rightarrow> string list" where
  "splitOn c [] = [[]]"
| "splitOn c (x # xs) =
     (if x = c then [] # splitOn c xs
      else case splitOn c xs of [] \<Rightarrow> [[x]] | l # ls \<Rightarrow> (x # l) # ls)"

definition exportedLines :: "app \<Rightarrow> string list" where
  "exportedLines s =
     (case exportToCSV s of None \<Rightarrow> [] | Some d \<Rightarrow> splitOn (CHR 0x0A) (content d))"

text \<open>
  The header row as the specification writes it; its dot in the unit of \<open>M\<close> is U+00B7
  (bytes C2 B7).
\<close>

definition spec_header :: string where
  "spec_header =
     ''Timestamp,P (kN),M (kN'' @ [CHR 0xC2, CHR 0xB7] @ ''m),B (m),D (m),e (m),qmax (kN/m''
       @ [CHR 0xC2, CHR 0xB2] @ ''),Case''"


section \<open>Evaluation and validation lemmas\<close>

lemmas parse_simps =
  parseFloat_def trimStart.simps scanDecimal_def whiteSpace_def scanUnsigned_def
  scanExponent_def isDigit_def digitsValue_def digitValue_def scale10_def


lemma parseFloat_Infinity: "parseFloat ''Infinity'' = PosInf"
  by (simp add: parse_simps)

lemma validateInputs_iff:
  "validateInputs s \<longleftrightarrow>
     (\<forall>v \<in> set [P s, M s, B s, D s, e s].
        v \<noteq> [] \<and> \<not> isNaN (parseFloat v) \<and> \<not> js_le (parseFloat v) (Fin 0))"
  by (simp add: validateInputs_def Let_def)





lemma accepted_number_iff:
  "(\<not> isNaN n \<and> \<not> js_le n (Fin 0)) \<longleftrightarrow> (n = PosInf \<or> (\<exists>x>0. n = Fin x))"
  by (cases n) (auto simp: js_le_def)

lemma inputs_kept:
  "P (calculateQmax s) = P s" "M (calculateQmax s) = M s" "B (calculateQmax s) = B s"
  "D (calculateQmax s) = D s" "e (calculateQmax s) = e s"
  "savedResults (calculateQmax s) = savedResults s"
  by (simp_all add: calculateQmax_def Let_def split: prod.splits)

lemma validateInputs_kept: "validateInputs (calculateQmax s) = validateInputs s"
  by (simp add: validateInputs_def inputs_kept)

lemma rejected:
  "\<not> validateInputs s \<Longrightarrow>
   calculateQmax s = s\<lparr>qmax := None, error := validation_message\<rparr>"
  by (simp add: calculateQmax_def)

lemma accepted:
  "validateInputs s \<Longrightarrow> qmax (calculateQmax s) \<noteq> None \<and> error (calculateQmax s) = []"
  by (simp add: calculateQmax_def Let_def split: prod.splits)

lemma calculateQmax_initial:
  "calculateQmax initial =
     initial\<lparr>qmax := Some (Fin (215 / 9)), calculationCase := ''Case A: e < ek'', error := []\<rparr>"
  by (simp add: calculateQmax_def validateInputs_def initial_def parse_simps js_le_def ek_def
      js_or_def Let_def)

section \<open>Lemmas on formatting\<close>







lemma format_examples:
  "formatNumber (Fin 3) = ''3''" "formatNumber (Fin 10) = ''10''"
  "formatNumber (Fin (6 / 5)) = ''1.2''" "formatNumber (Fin (3 / 2)) = ''1.5''"
  "formatNumber (Fin (1 / 10)) = ''0.1''" "formatNumber (Fin (215 / 9)) = ''23.9''"
  by code_simp+

lemma digitChar_not_nl: "k < 10 \<Longrightarrow> digitChar k \<noteq> CHR 0x0A"
proof -
  assume "k < 10"
  then have "k \<in> {0, 1, 2, 3, 4, 5, 6, 7, 8, 9}" by auto
  then show ?thesis by (auto simp: digitChar_def)
qed

lemma decimalDigits_no_nl: "CHR 0x0A \<notin> set (decimalDigits n)"
proof (induction n rule: decimalDigits.induct)
  case (1 n)
  show ?case
  proof (cases "n < 10")
    case True
    then show ?thesis
      using digitChar_not_nl[of n] by (auto simp: decimalDigits.simps[of n])
  next
    case False
    then show ?thesis
      using 1 digitChar_not_nl[of "n mod 10"] by (auto simp: decimalDigits.simps[of n])
  qed
qed

lemma digitsToString_no_nl:
  "CHR 0x0A \<notin> set ds \<Longrightarrow> CHR 0x0A \<notin> set (digitsToString ds n)"
  by (auto simp: digitsToString_def Let_def decimalDigits_no_nl dest: in_set_takeD in_set_dropD)

lemma formatNumber_no_nl: "CHR 0x0A \<notin> set (formatNumber num)"
proof -
  have "CHR 0x0A \<notin> set (toString l)" for l
    by (cases l)
       (auto simp: toString_def Let_def decimalDigits_no_nl digitsToString_no_nl
          split: prod.splits)
  then show ?thesis by (simp add: formatNumber_def)
qed

section \<open>Lemmas on the exported document\<close>

lemma splitOn_line: "c \<notin> set x \<Longrightarrow> splitOn c x = [x]"
  by (induction x) auto

lemma splitOn_cons_line: "c \<notin> set x \<Longrightarrow> splitOn c (x @ c # rest) = x # splitOn c rest"
  by (induction x) (auto split: list.splits)

lemma splitOn_join:
  "rs \<noteq> [] \<Longrightarrow> \<forall>r \<in> set rs. c \<notin> set r \<Longrightarrow> splitOn c (join [c] rs) = rs"
  by (induction "[c]" rs rule: join.induct) (simp_all add: splitOn_line splitOn_cons_line)

lemma csvRow_no_nl:
  "CHR 0x0A \<notin> set (timestamp r) \<Longrightarrow> CHR 0x0A \<notin> set (result_case r)
   \<Longrightarrow> CHR 0x0A \<notin> set (csvRow r)"
  by (simp add: csvRow_def formatNumber_no_nl)

lemma header_no_nl: "CHR 0x0A \<notin> set (join '','' headers)"
  by (simp add: headers_def)

lemma exportedLines_rows:
  assumes "savedResults s \<noteq> []"
    and "\<forall>r \<in> set (savedResults s).
           CHR 0x0A \<notin> set (timestamp r) \<and> CHR 0x0A \<notin> set (result_case r)"
  shows "exportedLines s = join '','' headers # map csvRow (savedResults s)"
proof -
  have "\<forall>l \<in> set (join '','' headers # map csvRow (savedResults s)). CHR 0x0A \<notin> set l"
    using assms(2) header_no_nl csvRow_no_nl by auto
  then have "splitOn (CHR 0x0A) (csvContent (savedResults s))
             = join '','' headers # map csvRow (savedResults s)"
    unfolding csvContent_def by (intro splitOn_join) simp_all
  then show ?thesis
    using assms(1) by (simp add: exportedLines_def exportToCSV_def)
qed

lemma header_row:
  "join '','' headers =
     ''Timestamp,P (kN),M (kN'' @ [CHR 0xE2, CHR 0x8B, CHR 0x85]
       @ ''m),B (m),D (m),e (m),qmax (kN/m'' @ [CHR 0xC2, CHR 0xB2] @ ''),Case''"
  by (simp add: headers_def)

lemma saved_initial:
  "savedResults (saveResult ''t1'' (calculateQmax initial)) =
     [\<lparr>timestamp = ''t1'',
       inputs = \<lparr>input_P = Fin 3, input_M = Fin 10, input_B = Fin (6 / 5),
                 input_D = Fin (3 / 2), input_e = Fin (1 / 10)\<rparr>,
       result_qmax = Fin (215 / 9), result_case = ''Case A: e < ek''\<rparr>]"
  unfolding calculateQmax_initial
  by (simp add: saveResult_def initial_def parse_simps)

lemma csvRow_initial:
  "map csvRow (savedResults (saveResult ''t1'' (calculateQmax initial)))
   = [''t1,3,10,1.2,1.5,0.1,23.9,Case A: e < ek'']"
  unfolding saved_initial by (simp add: csvRow_def format_examples)

section \<open>The three cases\<close>







section \<open>Validation\<close>

text \<open>
  C4, as the program has it. Validation succeeds exactly when each of the five input
  strings is non-empty and its \<open>parseFloat\<close> is a positive finite number or the positive
  infinity (there is no test for finiteness); then a result is stored and the error is
  cleared. Otherwise no result is stored and the error message is set.
\<close>

theorem validation_accepts:
  "(validateInputs s \<longleftrightarrow>
      (\<forall>v \<in> set [P s, M s, B s, D s, e s].
         v \<noteq> [] \<and> (parseFloat v = PosInf \<or> (\<exists>x>0. parseFloat v = Fin x))))
   \<and> (validateInputs s \<longrightarrow>
         qmax (calculateQmax s) \<noteq> None \<and> error (calculateQmax s) = [])
   \<and> (\<not> validateInputs s \<longrightarrow>
         qmax (calculateQmax s) = None
         \<and> error (calculateQmax s) = ''Please enter valid positive numbers for all fields'')"
proof -
  have "validateInputs s \<longleftrightarrow>
      (\<forall>v \<in> set [P s, M s, B s, D s, e s].
         v \<noteq> [] \<and> (parseFloat v = PosInf \<or> (\<exists>x>0. parseFloat v = Fin x)))"
    unfolding validateInputs_iff using accepted_number_iff by simp
  moreover have "validateInputs s \<longrightarrow>
         qmax (calculateQmax s) \<noteq> None \<and> error (calculateQmax s) = []"
    using accepted by blast
  moreover have "\<not> validateInputs s \<longrightarrow>
         qmax (calculateQmax s) = None
         \<and> error (calculateQmax s) = ''Please enter valid positive numbers for all fields''"
    by (simp add: rejected validation_message_def)
  ultimately show ?thesis by blast
qed

theorem validation_accepts_witness:
  "validateInputs initial
   \<and> parseFloat (P initial) = Fin 3 \<and> parseFloat (M initial) = Fin 10
   \<and> parseFloat (B initial) = Fin (6 / 5) \<and> parseFloat (D initial) = Fin (3 / 2)
   \<and> parseFloat (e initial) = Fin (1 / 10)
   \<and> qmax (calculateQmax initial) \<noteq> None
   \<and> \<not> validateInputs (initial\<lparr>B := ''0''\<rparr>)
   \<and> qmax (calculateQmax (initial\<lparr>B := ''0''\<rparr>)) = None
   \<and> \<not> validateInputs (initial\<lparr>D := ''abc''\<rparr>)
   \<and> qmax (calculateQmax (initial\<lparr>D := ''abc''\<rparr>)) = None"
proof -
  have v: "validateInputs initial"
    by (simp add: validateInputs_def initial_def parse_simps js_le_def)
  have z: "\<not> validateInputs (initial\<lparr>B := ''0''\<rparr>)"
    by (simp add: validateInputs_def initial_def parse_simps js_le_def)
  have n: "\<not> validateInputs (initial\<lparr>D := ''abc''\<rparr>)"
    by (simp add: validateInputs_def initial_def parse_simps js_le_def)
  have p: "parseFloat (P initial) = Fin 3" "parseFloat (M initial) = Fin 10"
    "parseFloat (B initial) = Fin (6 / 5)" "parseFloat (D initial) = Fin (3 / 2)"
    "parseFloat (e initial) = Fin (1 / 10)"
    by (simp_all add: initial_def parse_simps)
  show ?thesis
    using v z n p validation_accepts[of initial]
      validation_accepts[of "initial\<lparr>B := ''0''\<rparr>"]
      validation_accepts[of "initial\<lparr>D := ''abc''\<rparr>"]
    by blast
qed

text \<open>
  C4, as stated, fails: the input \<open>Infinity\<close> for \<open>P\<close> is not finite, yet validation succeeds
  and a result, the positive infinity, is stored.
\<close>

theorem validation_accepts_Infinity_counterexample:
  "validateInputs (initial\<lparr>P := ''Infinity''\<rparr>)
   \<and> parseFloat (P (initial\<lparr>P := ''Infinity''\<rparr>)) = PosInf
   \<and> qmax (calculateQmax (initial\<lparr>P := ''Infinity''\<rparr>)) = Some PosInf
   \<and> error (calculateQmax (initial\<lparr>P := ''Infinity''\<rparr>)) = []"
  by (simp add: calculateQmax_def validateInputs_def initial_def parse_simps js_le_def ek_def
      js_or_def Let_def)

text \<open>
  C5. When one of the five inputs is empty, or parses to NaN, to a number that is zero or
  negative, or to the negative infinity, \<open>calculateQmax\<close> stores no result, whatever the
  previous one was, and sets the error message; the results section then shows the message
  with neither the save nor the export button, and \<open>saveResult\<close> leaves the state, and so
  the log, unchanged.
\<close>

theorem invalid_input_clears_result:
  assumes "v \<in> set [P s, M s, B s, D s, e s]"
    and "v = [] \<or> parseFloat v = NaN \<or> parseFloat v = NegInf \<or> (\<exists>x\<le>0. parseFloat v = Fin x)"
  shows "qmax (calculateQmax s) = None
       \<and> error (calculateQmax s) = ''Please enter valid positive numbers for all fields''
       \<and> resultsSection (calculateQmax s)
           = ErrorText ''Please enter valid positive numbers for all fields''
       \<and> \<not> saveButtonShown (calculateQmax s)
       \<and> \<not> exportButtonShown (calculateQmax s)
       \<and> saveResult now (calculateQmax s) = calculateQmax s
       \<and> savedResults (saveResult now (calculateQmax s)) = savedResults s"
proof -
  have "v = [] \<or> isNaN (parseFloat v) \<or> js_le (parseFloat v) (Fin 0)"
    using assms(2) by (auto simp: js_le_def)
  then have "\<not> validateInputs s"
    unfolding validateInputs_iff using assms(1) by blast
  then have r: "calculateQmax s = s\<lparr>qmax := None, error := validation_message\<rparr>"
    by (rule rejected)
  show ?thesis
    unfolding r
    by (simp add: validation_message_def resultsSection_def saveButtonShown_def
        exportButtonShown_def saveResult_def)
qed

theorem invalid_input_clears_result_witness:
  "qmax (calculateQmax initial) = Some (Fin (215 / 9))
   \<and> parseFloat ''-5'' = Fin (- 5)
   \<and> qmax (calculateQmax ((calculateQmax initial)\<lparr>M := ''-5''\<rparr>)) = None
   \<and> \<not> saveButtonShown (calculateQmax ((calculateQmax initial)\<lparr>M := ''-5''\<rparr>))
   \<and> savedResults (saveResult ''now'' (calculateQmax ((calculateQmax initial)\<lparr>M := ''-5''\<rparr>)))
       = []"
  using invalid_input_clears_result[of "''-5''" "(calculateQmax initial)\<lparr>M := ''-5''\<rparr>" "''now''"]
    calculateQmax_initial
  by (simp add: initial_def parse_simps inputs_kept)

section \<open>The critical eccentricity\<close>




section \<open>Formatting\<close>



section \<open>The exported document\<close>

text \<open>
  C8, as the program has it. Exporting an empty log offers nothing. Exporting a log of
  \<open>N \<ge> 1\<close> results, none of whose time stamps and case labels holds a line feed, offers a
  document of \<open>N + 1\<close> lines: the header row of eight cells, whose dot in the unit of \<open>M\<close>
  is U+22C5, then one row per saved result in the order of the log, which is the order of
  saving; a row is the time stamp, the six numbers formatted by \<open>formatNumber\<close> and the case
  label, separated by commas.
\<close>

theorem export_document_lines:
  "(savedResults s = [] \<longrightarrow> exportToCSV s = None \<and> exportedLines s = [])
   \<and> (savedResults s \<noteq> []
        \<and> (\<forall>r \<in> set (savedResults s).
              CHR 0x0A \<notin> set (timestamp r) \<and> CHR 0x0A \<notin> set (result_case r))
      \<longrightarrow> exportedLines s = join '','' headers # map csvRow (savedResults s)
          \<and> length (exportedLines s) = length (savedResults s) + 1)
   \<and> join '','' headers =
        ''Timestamp,P (kN),M (kN'' @ [CHR 0xE2, CHR 0x8B, CHR 0x85]
          @ ''m),B (m),D (m),e (m),qmax (kN/m'' @ [CHR 0xC2, CHR 0xB2] @ ''),Case''
   \<and> length headers = 8
   \<and> csvRow r =
        timestamp r @ '','' @ formatNumber (input_P (inputs r)) @ '',''
          @ formatNumber (input_M (inputs r)) @ '','' @ formatNumber (input_B (inputs r)) @ '',''
          @ formatNumber (input_D (inputs r)) @ '','' @ formatNumber (input_e (inputs r)) @ '',''
          @ formatNumber (result_qmax r) @ '','' @ result_case r
   \<and> (qmax s = Some q \<longrightarrow>
        map csvRow (savedResults (saveResult now s))
        = map csvRow (savedResults s)
          @ [csvRow \<lparr>timestamp = now,
                     inputs = \<lparr>input_P = parseFloat (P s), input_M = parseFloat (M s),
                               input_B = parseFloat (B s), input_D = parseFloat (D s),
                               input_e = parseFloat (e s)\<rparr>,
                     result_qmax = q, result_case = calculationCase s\<rparr>])"
proof -
  have "savedResults s = [] \<longrightarrow> exportToCSV s = None \<and> exportedLines s = []"
    by (simp add: exportToCSV_def exportedLines_def)
  moreover have "savedResults s \<noteq> []
        \<and> (\<forall>r \<in> set (savedResults s).
              CHR 0x0A \<notin> set (timestamp r) \<and> CHR 0x0A \<notin> set (result_case r))
      \<longrightarrow> exportedLines s = join '','' headers # map csvRow (savedResults s)
          \<and> length (exportedLines s) = length (savedResults s) + 1"
    using exportedLines_rows[of s] by simp
  moreover have "length headers = 8"
    by (simp add: headers_def)
  moreover have "csvRow r =
        timestamp r @ '','' @ formatNumber (input_P (inputs r)) @ '',''
          @ formatNumber (input_M (inputs r)) @ '','' @ formatNumber (input_B (inputs r)) @ '',''
          @ formatNumber (input_D (inputs r)) @ '','' @ formatNumber (input_e (inputs r)) @ '',''
          @ formatNumber (result_qmax r) @ '','' @ result_case r"
    by (simp add: csvRow_def)
  moreover have "qmax s = Some q \<longrightarrow>
        map csvRow (savedResults (saveResult now s))
        = map csvRow (savedResults s)
          @ [csvRow \<lparr>timestamp = now,
                     inputs = \<lparr>input_P = parseFloat (P s), input_M = parseFloat (M s),
                               input_B = parseFloat (B s), input_D = parseFloat (D s),
                               input_e = parseFloat (e s)\<rparr>,
                     result_qmax = q, result_case = calculationCase s\<rparr>]"
    by (simp add: saveResult_def)
  ultimately show ?thesis
    using header_row by blast
qed

theorem export_document_lines_witness:
  "savedResults (saveResult ''t1'' (calculateQmax initial)) \<noteq> []
   \<and> exportedLines (saveResult ''t1'' (calculateQmax initial))
       = [''Timestamp,P (kN),M (kN'' @ [CHR 0xE2, CHR 0x8B, CHR 0x85]
            @ ''m),B (m),D (m),e (m),qmax (kN/m'' @ [CHR 0xC2, CHR 0xB2] @ ''),Case'',
          ''t1,3,10,1.2,1.5,0.1,23.9,Case A: e < ek'']
   \<and> exportedLines initial = []"
proof -
  have a: "savedResults (saveResult ''t1'' (calculateQmax initial)) \<noteq> []"
    by (simp add: saved_initial)
  have b: "\<forall>r \<in> set (savedResults (saveResult ''t1'' (calculateQmax initial))).
             CHR 0x0A \<notin> set (timestamp r) \<and> CHR 0x0A \<notin> set (result_case r)"
    by (simp add: saved_initial)
  have c: "savedResults initial = []"
    by (simp add: initial_def)
  show ?thesis
    using a b c export_document_lines[of "saveResult ''t1'' (calculateQmax initial)"]
      export_document_lines[of initial] csvRow_initial
    by simp
qed

text \<open>
  C8, as stated, fails: the first line of an exported document is not the header row the
  specification writes (U+00B7 for the dot), and the header has eight cells, not seven.
\<close>

theorem export_header_counterexample:
  "hd (exportedLines (saveResult ''t1'' (calculateQmax initial))) \<noteq> spec_header
   \<and> length headers \<noteq> 7"
proof -
  have "exportedLines (saveResult ''t1'' (calculateQmax initial))
        = join '','' headers # map csvRow (savedResults (saveResult ''t1'' (calculateQmax initial)))"
    by (rule exportedLines_rows) (simp_all add: saved_initial)
  then show ?thesis
    by (simp add: header_row spec_header_def headers_def)
qed

section \<open>Purity\<close>

text \<open>
  C9. The result of \<open>calculateQmax\<close> is determined by the five inputs: two states that pass
  validation with the same parsed inputs get the same pressure and case label, and two
  states with the same input strings get the same pressure and error. Running it again
  changes nothing, and it never changes the log of saved results.
\<close>

theorem calculateQmax_pure:
  "(validateInputs s \<and> validateInputs t
      \<and> parseFloat (P s) = parseFloat (P t) \<and> parseFloat (M s) = parseFloat (M t)
      \<and> parseFloat (B s) = parseFloat (B t) \<and> parseFloat (D s) = parseFloat (D t)
      \<and> parseFloat (e s) = parseFloat (e t)
      \<longrightarrow> qmax (calculateQmax s) = qmax (calculateQmax t)
          \<and> calculationCase (calculateQmax s) = calculationCase (calculateQmax t))
   \<and> (P s = P t \<and> M s = M t \<and> B s = B t \<and> D s = D t \<and> e s = e t
      \<longrightarrow> qmax (calculateQmax s) = qmax (calculateQmax t)
          \<and> error (calculateQmax s) = error (calculateQmax t))
   \<and> calculateQmax (calculateQmax s) = calculateQmax s
   \<and> savedResults (calculateQmax s) = savedResults s"
proof -
  have a: "qmax (calculateQmax s) = qmax (calculateQmax t)
          \<and> calculationCase (calculateQmax s) = calculationCase (calculateQmax t)"
    if "validateInputs s" "validateInputs t"
      "parseFloat (P s) = parseFloat (P t)" "parseFloat (M s) = parseFloat (M t)"
      "parseFloat (B s) = parseFloat (B t)" "parseFloat (D s) = parseFloat (D t)"
      "parseFloat (e s) = parseFloat (e t)"
    using that by (simp add: calculateQmax_def Let_def split: prod.splits)
  have b: "qmax (calculateQmax s) = qmax (calculateQmax t)
          \<and> error (calculateQmax s) = error (calculateQmax t)"
    if "P s = P t" "M s = M t" "B s = B t" "D s = D t" "e s = e t"
  proof -
    have "validateInputs s = validateInputs t"
      using that by (simp add: validateInputs_def)
    then show ?thesis
      using that by (simp add: calculateQmax_def Let_def split: prod.splits)
  qed
  have c: "calculateQmax (calculateQmax s) = calculateQmax s"
  proof (cases "validateInputs s")
    case False
    then show ?thesis
      using validateInputs_kept[of s] by (simp add: rejected)
  next
    case True
    then have "validateInputs (calculateQmax s)"
      by (simp add: validateInputs_kept)
    then show ?thesis
      using True
      by (simp add: calculateQmax_def[of "calculateQmax s"] inputs_kept Let_def split: prod.splits)
         (simp add: calculateQmax_def Let_def split: prod.splits)
  qed
  show ?thesis
    using a b c inputs_kept(6) by blast
qed

theorem calculateQmax_pure_witness:
  "P (initial\<lparr>P := ''3.0'', calculationCase := ''stale''\<rparr>) \<noteq> P initial
   \<and> qmax (calculateQmax (initial\<lparr>P := ''3.0'', calculationCase := ''stale''\<rparr>))
       = qmax (calculateQmax initial)
   \<and> calculationCase (calculateQmax (initial\<lparr>P := ''3.0'', calculationCase := ''stale''\<rparr>))
       = calculationCase (calculateQmax initial)
   \<and> savedResults (saveResult ''now'' (calculateQmax initial)) \<noteq> savedResults initial
   \<and> qmax (calculateQmax (saveResult ''now'' (calculateQmax initial)))
       = qmax (calculateQmax initial)"
proof -
  have v: "validateInputs initial"
    "validateInputs (initial\<lparr>P := ''3.0'', calculationCase := ''stale''\<rparr>)"
    by (simp_all add: validateInputs_def initial_def parse_simps js_le_def)
  have p: "parseFloat ''3.0'' = parseFloat ''3''"
    by (simp add: parse_simps)
  have i: "P (saveResult ''now'' (calculateQmax initial)) = P initial"
    "M (saveResult ''now'' (calculateQmax initial)) = M initial"
    "B (saveResult ''now'' (calculateQmax initial)) = B initial"
    "D (saveResult ''now'' (calculateQmax initial)) = D initial"
    "e (saveResult ''now'' (calculateQmax initial)) = e initial"
    "savedResults (saveResult ''now'' (calculateQmax initial)) \<noteq> savedResults initial"
    by (simp_all add: calculateQmax_initial saveResult_def)
  show ?thesis
    using v p i
      calculateQmax_pure[of "initial\<lparr>P := ''3.0'', calculationCase := ''stale''\<rparr>" initial]
      calculateQmax_pure[of "saveResult ''now'' (calculateQmax initial)" initial]
    by (simp add: initial_def)
qed

section \<open>The divisor of Case C\<close>



end
